theory Spec2Isabelle
  imports Main "HOL-Library.Sublist"
begin

section \<open>Output items of an Open Responses reply\<close>

text \<open>
  The Python examples read a reply through attribute access on objects of the client
  library. An item carries a string discriminant \<open>type\<close>; every other attribute is read
  with \<open>getattr(item, name, default)\<close>, so an attribute can be missing, can hold
  Python's \<open>None\<close>, or can hold a string. A missing attribute is \<open>None\<close> of the option
  type; a present one is a \<open>pyval\<close>. Attribute values other than strings and \<open>None\<close> are
  outside the model: the code slices and measures these values as strings. \<open>length\<close>
  stands for Python's \<open>len\<close> of a string.
\<close>

datatype pyval = PyNone | Str string

record item =
  type :: string
  content :: "pyval option"
  summary :: "pyval option"
  encrypted_content :: "pyval option"
  name :: "pyval option"
  arguments :: "pyval option"
  tool_output :: "pyval option"

text \<open>\<open>getattr(obj, attr, default)\<close>: the default is used only when the attribute is missing.\<close>

definition getattr :: "pyval option \<Rightarrow> pyval \<Rightarrow> pyval" where
  "getattr a d = (case a of None \<Rightarrow> d | Some v \<Rightarrow> v)"

text \<open>Python truthiness of these values: \<open>None\<close> and the empty string are false.\<close>

fun truthy :: "pyval \<Rightarrow> bool" where
  "truthy PyNone = False"
| "truthy (Str s) = (s \<noteq> [])"

text \<open>
  \<open>a or d\<close> where \<open>d\<close> is a string literal: \<open>a\<close> when it is true (then it is a non-empty
  string), the literal otherwise. Chains such as
  \<open>getattr(item, "content", None) or getattr(item, "summary", None) or "[encrypted]"\<close>
  nest it; the result is always a string, so \<open>len\<close> and slicing apply to it.
\<close>

fun str_or :: "pyval \<Rightarrow> string \<Rightarrow> string" where
  "str_or PyNone d = d"
| "str_or (Str s) d = (if s \<noteq> [] then s else d)"

text \<open>\<open>format(v)\<close>, as an f-string applies it.\<close>

fun format :: "pyval \<Rightarrow> string" where
  "format PyNone = ''None''"
| "format (Str s) = s"

text \<open>Decimal text of a non-negative counter, as an f-string prints it.\<close>

definition digit :: "nat \<Rightarrow> char" where
  "digit d = char_of (of_char (CHR ''0'') + d)"

fun str_nat :: "nat \<Rightarrow> string" where
  "str_nat n = (if n < 10 then [digit n] else str_nat (n div 10) @ [digit (n mod 10)])"

record usage_t =
  input_tokens :: int
  output_tokens :: int

record response =
  response_id :: string
  response_model :: string
  usage :: "usage_t option"
  "output" :: "item list"

section \<open>Reasoning visibility (reasoning\_visibility.py)\<close>

datatype ReasoningLevel = RAW | SUMMARY | ENCRYPTED | NONE

record analysis =
  level :: ReasoningLevel
  reasoning_items :: "item list"
  total_reasoning_tokens :: int
  details :: string

text \<open>The three flags \<open>analyze_reasoning_visibility\<close> computes over the reasoning items
  with \<open>any(...)\<close>.\<close>

definition has_raw_content :: "item list \<Rightarrow> bool" where
  "has_raw_content items =
     list_ex (\<lambda>i. truthy (getattr (content i) PyNone)
                 \<and> \<not> truthy (getattr (encrypted_content i) PyNone)) items"

definition has_encrypted :: "item list \<Rightarrow> bool" where
  "has_encrypted items = list_ex (\<lambda>i. truthy (getattr (encrypted_content i) PyNone)) items"

definition has_summary :: "item list \<Rightarrow> bool" where
  "has_summary items = list_ex (\<lambda>i. truthy (getattr (summary i) PyNone)) items"

text \<open>The text whose length estimates the tokens of one item:
  \<open>getattr(item, "content", "") or getattr(item, "summary", "") or ""\<close>.\<close>

definition token_text :: "item \<Rightarrow> string" where
  "token_text i =
     str_or (getattr (content i) (Str [])) (str_or (getattr (summary i) (Str [])) [])"

definition analyze_reasoning_visibility :: "response \<Rightarrow> analysis" where
  "analyze_reasoning_visibility r =
     (let rs = filter (\<lambda>i. type i = ''reasoning'') (output r) in
      if rs = [] then
        \<lparr>level = NONE, reasoning_items = [], total_reasoning_tokens = 0,
         details = ''No reasoning items found in response.''\<rparr>
      else
        let tokens = sum_list (map (\<lambda>i. int (length (token_text i)) div 4) rs) in
        if has_raw_content rs then
          \<lparr>level = RAW, reasoning_items = rs, total_reasoning_tokens = tokens,
           details = ''Full raw reasoning traces available. This model provides complete transparency.''\<rparr>
        else if has_summary rs then
          \<lparr>level = SUMMARY, reasoning_items = rs, total_reasoning_tokens = tokens,
           details = ''Summarized reasoning available. Raw traces are not exposed.''\<rparr>
        else if has_encrypted rs then
          \<lparr>level = ENCRYPTED, reasoning_items = rs, total_reasoning_tokens = 0,
           details = ''Reasoning is encrypted and not accessible to the client.''\<rparr>
        else
          \<lparr>level = NONE, reasoning_items = rs, total_reasoning_tokens = 0,
           details = ''Unknown reasoning format.''\<rparr>)"

text \<open>The token usage lines of the examples:
  \<open>in_tokens = response.usage.input_tokens if response.usage else 0\<close>, the same for
  \<open>out_tokens\<close>, and \<open>total_tokens = in_tokens + out_tokens\<close> (multi\_provider.py).\<close>

definition in_tokens :: "response \<Rightarrow> int" where
  "in_tokens r = (case usage r of Some u \<Rightarrow> input_tokens u | None \<Rightarrow> 0)"

definition out_tokens :: "response \<Rightarrow> int" where
  "out_tokens r = (case usage r of Some u \<Rightarrow> output_tokens u | None \<Rightarrow> 0)"

definition total_tokens :: "response \<Rightarrow> int" where
  "total_tokens r = in_tokens r + out_tokens r"

text \<open>
  Modelled from the spec: the \<open>output_text\<close> property of a response belongs to the client
  library's response class, which is not among the sources. The spec defines it as the
  concatenation of the \<open>content\<close> of all message items in sequence order, with no
  separator, and the empty string when there is no message item.
\<close>

definition output_text :: "response \<Rightarrow> string" where
  "output_text r =
     concat (map (\<lambda>i. str_or (getattr (content i) (Str [])) [])
                 (filter (\<lambda>i. type i = ''message'') (output r)))"

section \<open>The agent template (agent\_template.py)\<close>

text \<open>\<open>get_reasoning(item)\<close> returns the pair of a level and a text.\<close>

definition get_reasoning :: "item \<Rightarrow> ReasoningLevel \<times> pyval" where
  "get_reasoning i =
     (if type i \<noteq> ''reasoning'' then (NONE, Str [])
      else
        let c = getattr (content i) PyNone;
            s = getattr (summary i) PyNone;
            e = getattr (encrypted_content i) PyNone
        in if truthy c \<and> \<not> truthy e then (RAW, c)
           else if truthy s then (SUMMARY, s)
           else if truthy e then (ENCRYPTED, Str ''[encrypted]'')
           else (NONE, Str []))"

text \<open>\<open>execute_tool(name, arguments)\<close>: the registry is the \<open>match\<close> on the name, and
  \<open>arguments\<close> is the decoded dictionary.\<close>

definition execute_tool :: "string \<Rightarrow> (string \<rightharpoonup> pyval) \<Rightarrow> string" where
  "execute_tool nm args =
     (if nm = ''example_tool'' then
        ''Processed: '' @ format (case args ''input'' of None \<Rightarrow> Str [] | Some v \<Rightarrow> v)
      else ''Unknown tool: '' @ nm)"

text \<open>
  The body of the loop \<open>for item in response.output\<close> of \<open>display_response\<close>: the lines
  printed for one item and the new value of \<open>tool_call_count\<close>. \<open>str(item)\<close> and
  \<open>str.upper\<close> are Python's own; they are parameters \<open>str_item\<close> and \<open>upper\<close>.
\<close>

definition display_item ::
  "(item \<Rightarrow> string) \<Rightarrow> (string \<Rightarrow> string) \<Rightarrow> nat \<Rightarrow> item \<Rightarrow> string list \<times> nat" where
  "display_item str_item upper tool_call_count i =
     (if type i = ''reasoning'' then
        let text = str_or (getattr (content i) PyNone)
                     (str_or (getattr (summary i) PyNone) ''[encrypted]'')
        in ([''[REASONING] '' @ take 200 text @ (if length text > 200 then ''...'' else ''''), []],
            tool_call_count)
      else if type i = ''function_call'' then
        let n = tool_call_count + 1;
            nm = getattr (name i) (Str ''unknown'');
            args = getattr (arguments i) (Str ''{}'')
        in ([''[TOOL CALL #'' @ str_nat n @ ''] '' @ format nm,
             ''  Arguments: '' @ format args, []], n)
      else if type i = ''function_call_output'' then
        let out = str_or (getattr (tool_output i) (Str [])) []
        in ([''[TOOL RESULT] '' @ take 150 out @ (if length out > 150 then ''...'' else ''''), []],
            tool_call_count)
      else if type i = ''message'' then
        ([''[RESPONSE] '' @ format (getattr (content i) (Str [])), []], tool_call_count)
      else
        ([''['' @ upper (type i) @ ''] '' @ str_item i, []], tool_call_count))"

text \<open>The same loop body in basic\_agent.py, which knows two kinds and has no counter.\<close>

definition basic_display_item :: "(item \<Rightarrow> string) \<Rightarrow> (string \<Rightarrow> string) \<Rightarrow> item \<Rightarrow> string list" where
  "basic_display_item str_item upper i =
     (if type i = ''reasoning'' then
        [''[REASONING] '' @ str_or (getattr (content i) PyNone)
                              (str_or (getattr (summary i) PyNone) ''[encrypted]'')]
      else if type i = ''message'' then
        [''[MESSAGE] '' @ format (getattr (content i) (Str []))]
      else
        [''['' @ upper (type i) @ ''] '' @ str_item i])"

subsection \<open>Requests\<close>

record tool =
  tool_type :: string
  tool_name :: string
  description :: string
  parameters_type :: string
  properties :: "(string \<times> string \<times> string) list"
  required :: "string list"

definition TOOLS :: "tool list" where
  "TOOLS =
     [\<lparr>tool_type = ''function'', tool_name = ''example_tool'',
       description = ''An example tool - replace with your own'',
       parameters_type = ''object'',
       properties = [(''input'', ''string'', ''The input to process'')],
       required = [''input'']\<rparr>]"

text \<open>\<open>CONFIG\<close> is read from the environment when the module is loaded.\<close>

record config =
  api_key :: "string option"
  model :: string
  reasoning_effort :: string

record request =
  req_model :: string
  req_instructions :: string
  req_input :: string
  req_reasoning_effort :: string
  req_tools :: "tool list option"
  req_tool_choice :: "string option"

text \<open>
  \<open>client.responses.create\<close> is the remote side. It answers a request with a response or
  raises; what it answers may depend on how many requests it has received before, so a
  client is a function of that number, and the functions that call it return the number
  of requests made so far.
\<close>

datatype error = APIError string

type_synonym client = "nat \<Rightarrow> request \<Rightarrow> error + response"

definition create_agent ::
  "config \<Rightarrow> client \<Rightarrow> nat \<Rightarrow> string \<Rightarrow> string option \<Rightarrow> tool list option \<Rightarrow> string
     \<Rightarrow> (error + response) \<times> nat" where
  "create_agent cfg cl sent task instructions tools effort =
     (let params =
            \<lparr>req_model = model cfg,
             req_instructions =
               (case instructions of
                  None \<Rightarrow> ''You are a helpful assistant that completes tasks step by step.''
                | Some s \<Rightarrow>
                    if s \<noteq> [] then s
                    else ''You are a helpful assistant that completes tasks step by step.''),
             req_input = task,
             req_reasoning_effort = effort,
             req_tools = None,
             req_tool_choice = None\<rparr>;
          params' =
            (case tools of
               None \<Rightarrow> params
             | Some ts \<Rightarrow>
                 if ts \<noteq> [] then params\<lparr>req_tools := Some ts, req_tool_choice := Some ''auto''\<rparr>
                 else params)
      in (cl sent params', Suc sent))"

text \<open>
  \<open>run_agent(task, use_tools)\<close>: one call of \<open>create_agent\<close>, then \<open>display_response\<close>, which
  only prints, then \<open>return response\<close>. An exception of the client leaves through
  \<open>run_agent\<close>; it is the \<open>Inl\<close> result.
\<close>

definition run_agent :: "config \<Rightarrow> client \<Rightarrow> nat \<Rightarrow> string \<Rightarrow> bool \<Rightarrow> (error + response) \<times> nat" where
  "run_agent cfg cl sent task use_tools =
     (let tools = (if use_tools then Some TOOLS else None)
      in create_agent cfg cl sent task None tools (reasoning_effort cfg))"

section \<open>The token estimate in the words of the specification\<close>

text \<open>
  The specification's text for one item: the content, or the summary when the content is
  empty. An attribute that is missing or \<open>None\<close> counts as empty.
\<close>

definition content_or_summary :: "item \<Rightarrow> string" where
  "content_or_summary i =
     (let s = (case summary i of Some (Str t) \<Rightarrow> t | _ \<Rightarrow> [])
      in case content i of Some (Str c) \<Rightarrow> (if c \<noteq> [] then c else s) | _ \<Rightarrow> s)"

section \<open>Sample inputs\<close>

definition reasoning_item :: "pyval option \<Rightarrow> pyval option \<Rightarrow> pyval option \<Rightarrow> item" where
  "reasoning_item c s e =
     \<lparr>type = ''reasoning'', content = c, summary = s, encrypted_content = e,
      name = None, arguments = None, tool_output = None\<rparr>"

definition other_item :: "string \<Rightarrow> pyval option \<Rightarrow> item" where
  "other_item t c =
     \<lparr>type = t, content = c, summary = None, encrypted_content = None,
      name = None, arguments = None, tool_output = None\<rparr>"

definition sample_response :: "item list \<Rightarrow> response" where
  "sample_response items =
     \<lparr>response_id = ''resp_1'', response_model = ''m:groq'', usage = None, output = items\<rparr>"

text \<open>One raw trace between two summaries, followed by the answer.\<close>

definition mixed_items :: "item list" where
  "mixed_items =
     [reasoning_item None (Some (Str ''first summary'')) None,
      reasoning_item (Some (Str ''15 * 0.8 = 12 chickens'')) None (Some PyNone),
      reasoning_item (Some (Str [])) (Some (Str ''second'')) None,
      other_item ''message'' (Some (Str ''21 animals''))]"

text \<open>Two reasoning items that carry encrypted content only.\<close>

definition encrypted_items :: "item list" where
  "encrypted_items =
     [reasoning_item None None (Some (Str ''gAAAAABk'')),
      reasoning_item (Some PyNone) (Some (Str [])) (Some (Str ''gAAAAABl'')),
      other_item ''message'' (Some (Str ''done''))]"

text \<open>A remote side that answers every request with one more function call.\<close>

definition always_calls :: client where
  "always_calls sent req =
     Inr \<lparr>response_id = ''resp'', response_model = req_model req, usage = None,
          output = [\<lparr>type = ''function_call'', content = None, summary = None,
                     encrypted_content = None, name = Some (Str ''example_tool''),
                     arguments = Some (Str ''{}''), tool_output = None\<rparr>]\<rparr>"

text \<open>Upper case of ASCII letters, a stand-in for \<open>str.upper\<close> on sample inputs.\<close>

definition ascii_upper :: "string \<Rightarrow> string" where
  "ascii_upper s =
     map (\<lambda>c. if (97::nat) \<le> of_char c \<and> of_char c \<le> (122::nat)
              then char_of (of_char c - (32::nat)) else c) s"

section \<open>Properties\<close>

subsection \<open>Auxiliary facts\<close>

lemma token_text_eq: "token_text i = content_or_summary i"
  by (simp add: token_text_def content_or_summary_def getattr_def
      split: option.splits pyval.splits)

lemma list_ex_mem: "x \<in> set xs \<Longrightarrow> P x \<Longrightarrow> list_ex P xs"
  by (auto simp: list_ex_iff)

lemma ascii_upper_sample: "ascii_upper ''image_generation_call'' = ''IMAGE_GENERATION_CALL''"
  by code_simp

lemma encrypted_reasoning:
  "filter (\<lambda>i. type i = ''reasoning'') (output (sample_response encrypted_items)) =
     [reasoning_item None None (Some (Str ''gAAAAABk'')),
      reasoning_item (Some PyNone) (Some (Str [])) (Some (Str ''gAAAAABl''))]"
  by (simp add: sample_response_def encrypted_items_def reasoning_item_def other_item_def)

lemma mixed_reasoning:
  "filter (\<lambda>i. type i = ''reasoning'') (output (sample_response mixed_items)) =
     [reasoning_item None (Some (Str ''first summary'')) None,
      reasoning_item (Some (Str ''15 * 0.8 = 12 chickens'')) None (Some PyNone),
      reasoning_item (Some (Str [])) (Some (Str ''second'')) None]"
  by (simp add: sample_response_def mixed_items_def reasoning_item_def other_item_def)

subsection \<open>Reasoning visibility\<close>

text \<open>
  Claim C1. When the output holds a reasoning item whose content is non-empty and whose
  encrypted content is empty, the resolver returns level raw, whatever the other items
  are; \<open>get_reasoning\<close> classifies that item as raw as well.
\<close>

theorem raw_item_gives_raw:
  assumes "i \<in> set (output r)" and "type i = ''reasoning''"
    and "truthy (getattr (content i) PyNone)"
    and "\<not> truthy (getattr (encrypted_content i) PyNone)"
  shows "level (analyze_reasoning_visibility r) = RAW \<and> fst (get_reasoning i) = RAW"
proof -
  let ?rs = "filter (\<lambda>i. type i = ''reasoning'') (output r)"
  from assms(1,2) have mem: "i \<in> set ?rs" by simp
  from assms(1,2) have ne: "?rs \<noteq> []" by (auto simp: filter_empty_conv)
  from mem assms(3,4) have "has_raw_content ?rs"
    unfolding has_raw_content_def by (intro list_ex_mem [of i]) simp_all
  with ne have "level (analyze_reasoning_visibility r) = RAW"
    by (simp add: analyze_reasoning_visibility_def Let_def)
  moreover from assms(2,3,4) have "fst (get_reasoning i) = RAW"
    by (simp add: get_reasoning_def Let_def)
  ultimately show ?thesis by simp
qed

text \<open>One raw trace between two summary-only items still resolves to raw.\<close>

theorem raw_item_gives_raw_witness:
  "mixed_items ! 1 \<in> set (output (sample_response mixed_items))
 \<and> type (mixed_items ! 1) = ''reasoning''
 \<and> truthy (getattr (content (mixed_items ! 1)) PyNone)
 \<and> \<not> truthy (getattr (encrypted_content (mixed_items ! 1)) PyNone)
 \<and> level (analyze_reasoning_visibility (sample_response mixed_items)) = RAW
 \<and> fst (get_reasoning (mixed_items ! 1)) = RAW"
proof -
  have h1: "mixed_items ! 1 \<in> set (output (sample_response mixed_items))"
    by (simp add: sample_response_def mixed_items_def)
  have h2: "type (mixed_items ! 1) = ''reasoning''"
    by (simp add: mixed_items_def reasoning_item_def)
  have h3: "truthy (getattr (content (mixed_items ! 1)) PyNone)"
    by (simp add: mixed_items_def reasoning_item_def getattr_def)
  have h4: "\<not> truthy (getattr (encrypted_content (mixed_items ! 1)) PyNone)"
    by (simp add: mixed_items_def reasoning_item_def getattr_def)
  from raw_item_gives_raw [OF h1 h2 h3 h4] h1 h2 h3 h4 show ?thesis by simp
qed

text \<open>
  Claim C4. When the reasoning items are not empty, none of them has non-empty content
  or summary, and encrypted content is present, the resolver returns level encrypted and
  a token estimate of exactly 0.
\<close>

theorem encrypted_only_zero_tokens:
  assumes ne: "filter (\<lambda>i. type i = ''reasoning'') (output r) \<noteq> []"
    and plain: "\<forall>i \<in> set (filter (\<lambda>i. type i = ''reasoning'') (output r)).
            \<not> truthy (getattr (content i) PyNone) \<and> \<not> truthy (getattr (summary i) PyNone)"
    and enc: "\<exists>i \<in> set (filter (\<lambda>i. type i = ''reasoning'') (output r)).
            truthy (getattr (encrypted_content i) PyNone)"
  shows "level (analyze_reasoning_visibility r) = ENCRYPTED
       \<and> total_reasoning_tokens (analyze_reasoning_visibility r) = 0"
proof -
  let ?rs = "filter (\<lambda>i. type i = ''reasoning'') (output r)"
  from plain have nraw: "\<not> has_raw_content ?rs"
    unfolding has_raw_content_def list_ex_iff by blast
  from plain have nsum: "\<not> has_summary ?rs"
    unfolding has_summary_def list_ex_iff by blast
  from enc have henc: "has_encrypted ?rs"
    unfolding has_encrypted_def list_ex_iff by blast
  from ne nraw nsum henc show ?thesis
    by (simp add: analyze_reasoning_visibility_def Let_def)
qed

text \<open>Two items with encrypted content only.\<close>

theorem encrypted_only_zero_tokens_witness:
  "filter (\<lambda>i. type i = ''reasoning'') (output (sample_response encrypted_items)) \<noteq> []
 \<and> list_all (\<lambda>i. \<not> truthy (getattr (content i) PyNone) \<and> \<not> truthy (getattr (summary i) PyNone))
      (filter (\<lambda>i. type i = ''reasoning'') (output (sample_response encrypted_items)))
 \<and> (\<exists>i \<in> set (filter (\<lambda>i. type i = ''reasoning'') (output (sample_response encrypted_items))).
        truthy (getattr (encrypted_content i) PyNone))
 \<and> level (analyze_reasoning_visibility (sample_response encrypted_items)) = ENCRYPTED
 \<and> total_reasoning_tokens (analyze_reasoning_visibility (sample_response encrypted_items)) = 0"
proof -
  let ?rs = "filter (\<lambda>i. type i = ''reasoning'') (output (sample_response encrypted_items))"
  have h1: "?rs \<noteq> []"
    by (simp add: encrypted_reasoning)
  have h2: "\<forall>i \<in> set ?rs. \<not> truthy (getattr (content i) PyNone)
                        \<and> \<not> truthy (getattr (summary i) PyNone)"
    by (simp add: encrypted_reasoning reasoning_item_def getattr_def)
  have h3: "\<exists>i \<in> set ?rs. truthy (getattr (encrypted_content i) PyNone)"
    by (simp add: encrypted_reasoning reasoning_item_def getattr_def)
  from h2 have h2': "list_all (\<lambda>i. \<not> truthy (getattr (content i) PyNone)
                               \<and> \<not> truthy (getattr (summary i) PyNone)) ?rs"
    unfolding list_all_iff .
  from encrypted_only_zero_tokens [OF h1 h2 h3] h1 h2' h3 show ?thesis by blast
qed

text \<open>
  Claim C5. When the resolver returns level raw or summary, the token estimate is the sum
  over all reasoning items of the length of the content, or of the summary when the
  content is empty, divided by 4 and rounded down.
\<close>

theorem token_estimate_is_sum:
  assumes "level (analyze_reasoning_visibility r) = RAW
         \<or> level (analyze_reasoning_visibility r) = SUMMARY"
  shows "total_reasoning_tokens (analyze_reasoning_visibility r) =
         (\<Sum>i \<leftarrow> filter (\<lambda>i. type i = ''reasoning'') (output r).
            int (length (content_or_summary i)) div 4)"
  using assms
  by (simp add: analyze_reasoning_visibility_def Let_def token_text_eq split: if_splits)

text \<open>The mixed sample: lengths 13, 22 and 6 give 3 + 5 + 1.\<close>

theorem token_estimate_is_sum_witness:
  "(level (analyze_reasoning_visibility (sample_response mixed_items)) = RAW
    \<or> level (analyze_reasoning_visibility (sample_response mixed_items)) = SUMMARY)
 \<and> total_reasoning_tokens (analyze_reasoning_visibility (sample_response mixed_items)) = 9"
proof -
  have h: "level (analyze_reasoning_visibility (sample_response mixed_items)) = RAW
         \<or> level (analyze_reasoning_visibility (sample_response mixed_items)) = SUMMARY"
    by (simp add: analyze_reasoning_visibility_def mixed_reasoning Let_def has_raw_content_def
        reasoning_item_def getattr_def)
  have "(\<Sum>i \<leftarrow> filter (\<lambda>i. type i = ''reasoning'') (output (sample_response mixed_items)).
            int (length (content_or_summary i)) div 4) = 9"
    by (simp add: mixed_reasoning content_or_summary_def reasoning_item_def)
  with token_estimate_is_sum [OF h] h show ?thesis by simp
qed

text \<open>
  Claim C6. A response with an empty output has the empty \<open>output_text\<close>, and the resolver
  returns level none, a zero token estimate and no reasoning items.
\<close>

theorem empty_output_is_none:
  assumes "output r = []"
  shows "output_text r = [] \<and> level (analyze_reasoning_visibility r) = NONE
       \<and> total_reasoning_tokens (analyze_reasoning_visibility r) = 0
       \<and> reasoning_items (analyze_reasoning_visibility r) = []"
  using assms by (simp add: output_text_def analyze_reasoning_visibility_def)

theorem empty_output_is_none_witness:
  "output (sample_response []) = []
 \<and> output_text (sample_response []) = []
 \<and> level (analyze_reasoning_visibility (sample_response [])) = NONE
 \<and> total_reasoning_tokens (analyze_reasoning_visibility (sample_response [])) = 0
 \<and> reasoning_items (analyze_reasoning_visibility (sample_response [])) = []"
proof -
  have h: "output (sample_response []) = []"
    by (simp add: sample_response_def)
  from empty_output_is_none [OF h] h show ?thesis by simp
qed

text \<open>
  Claim C10. For an item whose type is not \<open>reasoning\<close>, \<open>get_reasoning\<close> returns level none
  and the empty text, whatever the content, summary and encrypted content are.
\<close>

theorem get_reasoning_non_reasoning:
  assumes "type i \<noteq> ''reasoning''"
  shows "get_reasoning i = (NONE, Str [])
       \<and> get_reasoning (i\<lparr>content := c, summary := s, encrypted_content := e\<rparr>) = (NONE, Str [])"
  using assms by (simp add: get_reasoning_def)

theorem get_reasoning_non_reasoning_witness:
  "type (other_item ''message'' (Some (Str ''hello''))) \<noteq> ''reasoning''
 \<and> get_reasoning (other_item ''message'' (Some (Str ''hello''))) = (NONE, Str [])
 \<and> get_reasoning ((other_item ''message'' (Some (Str ''hello'')))
      \<lparr>content := Some (Str ''trace''), summary := Some (Str ''sum''),
       encrypted_content := None\<rparr>) = (NONE, Str [])"
proof -
  have h: "type (other_item ''message'' (Some (Str ''hello''))) \<noteq> ''reasoning''"
    by (simp add: other_item_def)
  from get_reasoning_non_reasoning [OF h] h show ?thesis by simp
qed

subsection \<open>Usage\<close>

text \<open>
  Claim C8. The total is \<open>input_tokens + output_tokens\<close> when the usage is present (12 and
  34 give 46) and 0 when it is absent.
\<close>

theorem total_usage:
  "total_tokens (r\<lparr>usage := Some u\<rparr>) = input_tokens u + output_tokens u
 \<and> total_tokens (r\<lparr>usage := None\<rparr>) = 0
 \<and> total_tokens (r\<lparr>usage := Some \<lparr>input_tokens = 12, output_tokens = 34\<rparr>\<rparr>) = 46"
  by (simp add: total_tokens_def in_tokens_def out_tokens_def)

subsection \<open>Tool dispatch\<close>

text \<open>
  Claim C2, as the code has it. \<open>execute_tool\<close> takes a name and the decoded arguments and
  returns a plain string. For the one registered name it is \<open>Processed: \<close> followed by the
  \<open>input\<close> argument, empty when that is missing; the result depends on the name and the
  arguments only.
\<close>

theorem execute_tool_registered:
  "execute_tool ''example_tool'' args =
     ''Processed: '' @ (case args ''input'' of None \<Rightarrow> [] | Some v \<Rightarrow> format v)"
  by (simp add: execute_tool_def split: option.splits)

text \<open>
  Claim C2, as stated, fails. Two function calls with the call ids \<open>c1\<close> and \<open>c2\<close>, the
  same registered name and the same arguments are dispatched by the same call of
  \<open>execute_tool\<close>, whose result is one bare string: no reading of a call id from the result
  gives each call its own. The name \<open>known\<close> of the claim's example is not registered.
\<close>

theorem execute_tool_call_id_counterexample:
  "execute_tool ''example_tool'' [''input'' \<mapsto> Str ''x''] = ''Processed: x''
 \<and> execute_tool ''known'' [''input'' \<mapsto> Str ''x''] = ''Unknown tool: known''
 \<and> \<not> (\<exists>call_id_of :: string \<Rightarrow> string.
         call_id_of (execute_tool ''example_tool'' [''input'' \<mapsto> Str ''x'']) = ''c1''
       \<and> call_id_of (execute_tool ''example_tool'' [''input'' \<mapsto> Str ''x'']) = ''c2'')"
  by (simp add: execute_tool_def)

text \<open>
  Claim C3. For a name that is not registered, \<open>execute_tool\<close> returns (it has no failing
  branch) the string \<open>Unknown tool: \<close> followed by the name, which therefore contains the
  name.
\<close>

theorem unknown_tool_names_itself:
  assumes "nm \<noteq> ''example_tool''"
  shows "execute_tool nm args = ''Unknown tool: '' @ nm \<and> sublist nm (execute_tool nm args)"
proof -
  from assms have eq: "execute_tool nm args = ''Unknown tool: '' @ nm"
    by (simp add: execute_tool_def)
  have "sublist nm (''Unknown tool: '' @ nm @ [])"
    unfolding sublist_def by blast
  with eq show ?thesis by simp
qed

theorem unknown_tool_names_itself_witness:
  "''known'' \<noteq> ''example_tool''
 \<and> execute_tool ''known'' [''input'' \<mapsto> Str ''x''] = ''Unknown tool: known''
 \<and> sublist ''known'' (execute_tool ''known'' [''input'' \<mapsto> Str ''x''])"
proof -
  have h: "''known'' \<noteq> ''example_tool''" by simp
  note r = unknown_tool_names_itself [OF h, of "[''input'' \<mapsto> Str ''x'']"]
  from r have a: "execute_tool ''known'' [''input'' \<mapsto> Str ''x''] = ''Unknown tool: known''"
    by simp
  from r have b: "sublist ''known'' (execute_tool ''known'' [''input'' \<mapsto> Str ''x''])"
    by (rule conjunct2)
  from h a b show ?thesis by blast
qed

subsection \<open>Displaying items\<close>

text \<open>
  Claim C9. An item whose type is none of \<open>reasoning\<close>, \<open>message\<close>, \<open>function_call\<close> and
  \<open>function_call_output\<close> is handled by the catch-all branch of both display loops: the
  loop body returns the line of that branch and leaves the tool call counter as it is.
\<close>

theorem unknown_kind_catch_all:
  assumes "type i \<notin> {''reasoning'', ''message'', ''function_call'', ''function_call_output''}"
  shows "display_item str_item upper n i = ([''['' @ upper (type i) @ ''] '' @ str_item i, []], n)
       \<and> basic_display_item str_item upper i = [''['' @ upper (type i) @ ''] '' @ str_item i]"
  using assms by (simp add: display_item_def basic_display_item_def)

theorem unknown_kind_catch_all_witness:
  "type (other_item ''image_generation_call'' None)
     \<notin> {''reasoning'', ''message'', ''function_call'', ''function_call_output''}
 \<and> display_item (\<lambda>i. ''<item>'') ascii_upper 2 (other_item ''image_generation_call'' None)
     = ([''[IMAGE_GENERATION_CALL] <item>'', []], 2)
 \<and> basic_display_item (\<lambda>i. ''<item>'') ascii_upper (other_item ''image_generation_call'' None)
     = [''[IMAGE_GENERATION_CALL] <item>'']"
proof -
  have h: "type (other_item ''image_generation_call'' None)
     \<notin> {''reasoning'', ''message'', ''function_call'', ''function_call_output''}"
    by (simp add: other_item_def)
  have t: "type (other_item ''image_generation_call'' None) = ''image_generation_call''"
    by (simp add: other_item_def)
  from unknown_kind_catch_all [OF h, of "\<lambda>i. ''<item>''" ascii_upper 2] h
  show ?thesis by (simp add: t ascii_upper_sample)
qed

subsection \<open>The agent driver\<close>

text \<open>
  Claim C7, as the code has it. Whatever the remote side answers, \<open>run_agent\<close> submits
  exactly one request and returns the answer to it unchanged; it has no iteration bound
  and never resubmits.
\<close>

theorem run_agent_single_request:
  "run_agent cfg cl sent task use_tools =
     (cl sent \<lparr>req_model = model cfg,
               req_instructions = ''You are a helpful assistant that completes tasks step by step.'',
               req_input = task,
               req_reasoning_effort = reasoning_effort cfg,
               req_tools = (if use_tools then Some TOOLS else None),
               req_tool_choice = (if use_tools then Some ''auto'' else None)\<rparr>,
      Suc sent)"
  by (simp add: run_agent_def create_agent_def TOOLS_def)

text \<open>
  Claim C7, as stated, fails. Against a remote side that answers every request with a
  function call, \<open>run_agent\<close> returns normally after one request, with the response that
  holds the pending call; there is no loop-limit result.
\<close>

theorem run_agent_loop_limit_counterexample:
  "run_agent \<lparr>api_key = Some ''k'', model = ''m:groq'', reasoning_effort = ''medium''\<rparr>
     always_calls 0 ''task'' True =
   (Inr \<lparr>response_id = ''resp'', response_model = ''m:groq'', usage = None,
         output = [\<lparr>type = ''function_call'', content = None, summary = None,
                    encrypted_content = None, name = Some (Str ''example_tool''),
                    arguments = Some (Str ''{}''), tool_output = None\<rparr>]\<rparr>, 1)"
  by (simp add: run_agent_def create_agent_def TOOLS_def always_calls_def)

end
